theory Spec2Isabelle
  imports Main "HOL-Library.Word" "HOL-Library.List_Lexorder"
begin

section \<open>Bytes, errors and promises\<close>

text \<open>
  A \<^verbatim>\<open>Uint8Array\<close> or \<^verbatim>\<open>Buffer\<close> content is a list of bytes. Keys of the store
  are compared bytewise, a proper prefix being the smaller: that is the order of
  \<^verbatim>\<open>HOL-Library.List_Lexorder\<close> on lists of 8-bit words.
\<close>

type_synonym byte = "8 word"
type_synonym bytes = "byte list"

text \<open>
  Every \<^verbatim>\<open>throw\<close> and every rejection of the sources is a value of \<open>error\<close>:
  \<^item> \<open>NotFoundError\<close>: the store's error whose flag \<^verbatim>\<open>err.notFound\<close> is set;
  \<^item> \<open>StoreError\<close>: any other error of the store (flag unset);
  \<^item> \<open>LedgerError\<close>: a rejected \<^verbatim>\<open>api.query\<close> or \<^verbatim>\<open>api.tx\<close> call;
  \<^item> \<open>UnsafeNumber\<close>: \<^verbatim>\<open>toNumber()\<close> of a value that needs more than 53 bits;
  \<^item> \<open>InvalidState\<close>: \<^verbatim>\<open>Error(`Invalid state. Got '${channel.type}'`)\<close>;
  \<^item> \<open>NonceUsedTwice\<close>: \<^verbatim>\<open>Error('Nonces must not be used twice.')\<close>;
  \<^item> \<open>ExistsOffChainNotOnChain id\<close>:
    \<^verbatim>\<open>Error(`Channel ${u8aToHex(channelId)} exists off-chain but not on-chain.`)\<close>;
  \<^item> \<open>ExistsOnChainNotOffChain id\<close>:
    \<^verbatim>\<open>Error(`Channel ${u8aToHex(channelId)} exists on-chain but not off-chain.`)\<close>;
  \<^item> \<open>TicketTooBig n\<close>: \<^verbatim>\<open>Error(`Ticket is too big by ${n} elements.`)\<close>;
  \<^item> \<open>InvalidConstructorArguments\<close>: \<^verbatim>\<open>Error(`Invalid constructor arguments.`)\<close>;
  \<^item> \<open>RangeError\<close>: a typed-array view that does not fit its buffer;
  \<^item> \<open>NotYetClosed\<close>: the settler's fault for a withdrawal before closure.
\<close>

datatype error =
    NotFoundError
  | StoreError string
  | LedgerError string
  | UnsafeNumber
  | InvalidState string
  | NonceUsedTwice
  | ExistsOffChainNotOnChain bytes
  | ExistsOnChainNotOffChain bytes
  | TicketTooBig nat
  | InvalidConstructorArguments
  | RangeError
  | NotYetClosed

text \<open>The flag \<^verbatim>\<open>err.notFound\<close> of an error.\<close>

fun notFound :: "error \<Rightarrow> bool" where
  "notFound NotFoundError = True"
| "notFound _ = False"

text \<open>
  The final state of a promise: resolved with a value, rejected with an error, or
  never settled (\<open>Pending\<close>).
\<close>

datatype 'a promise = Resolved 'a | Rejected error | Pending

text \<open>
  \<^verbatim>\<open>Promise.all\<close> of two promises: it rejects as soon as one of them rejects, resolves
  when both have resolved, and stays pending otherwise. Of two rejections the one that
  comes first in time is reported: the arguments are given in the order in which the two
  promises settle, the left one first. The order matters only where both can reject.
\<close>

fun promise_all2 :: "'a promise \<Rightarrow> 'b promise \<Rightarrow> ('a \<times> 'b) promise" where
  "promise_all2 (Rejected e) q = Rejected e"
| "promise_all2 p (Rejected e) = Rejected e"
| "promise_all2 (Resolved a) (Resolved b) = Resolved (a, b)"
| "promise_all2 p q = Pending"

text \<open>\<^verbatim>\<open>Promise.all\<close> of an array of promises, by the same rule.\<close>

fun promise_all :: "'a promise list \<Rightarrow> 'a list promise" where
  "promise_all [] = Resolved []"
| "promise_all (p # ps) =
     (case promise_all2 p (promise_all ps) of
        Resolved (v, vs) \<Rightarrow> Resolved (v # vs)
      | Rejected e \<Rightarrow> Rejected e
      | Pending \<Rightarrow> Pending)"

section \<open>The persisted store\<close>

text \<open>
  The \<^verbatim>\<open>LevelUp\<close> store: its entries in ascending key order, and the failure of the
  storage engine, if it has one (then every operation fails with it).
\<close>

record LevelUp =
  entries :: "(bytes \<times> bytes) list"
  fault :: "error option"

text \<open>\<^verbatim>\<open>db.get(key)\<close>: the value, or a rejection flagged \<^verbatim>\<open>notFound\<close>.\<close>

definition db_get :: "LevelUp \<Rightarrow> bytes \<Rightarrow> bytes promise" where
  "db_get d k =
     (case fault d of
        Some e \<Rightarrow> Rejected e
      | None \<Rightarrow>
          (case map_of (entries d) k of
             Some v \<Rightarrow> Resolved v
           | None \<Rightarrow> Rejected NotFoundError))"

text \<open>
  \<^verbatim>\<open>db.createReadStream({ gt, lt })\<close>: the \<^verbatim>\<open>{ key, value }\<close> rows whose key lies
  strictly between the bounds, in key order, then \<^verbatim>\<open>'end'\<close>; or \<^verbatim>\<open>'error'\<close>.
\<close>

definition createReadStream :: "LevelUp \<Rightarrow> bytes \<Rightarrow> bytes \<Rightarrow> error + (bytes \<times> bytes) list" where
  "createReadStream d gt lt =
     (case fault d of
        Some e \<Rightarrow> Inl e
      | None \<Rightarrow> Inr (filter (\<lambda>row. gt < fst row \<and> fst row < lt) (entries d)))"

section \<open>The connector and its collaborators\<close>

text \<open>
  The channel record of the ledger (\<^verbatim>\<open>srml_types\<close>): \<^verbatim>\<open>asFunded\<close> and \<^verbatim>\<open>asActive\<close>
  hold a \<^verbatim>\<open>ChannelBalance\<close>, \<^verbatim>\<open>asPendingSettlement\<close> a tuple whose first component is
  one. \<^verbatim>\<open>Balance\<close> values are big integers (\<^verbatim>\<open>BN\<close>).
\<close>

record ChannelBalance =
  balance :: int
  balance_a :: int

datatype ChannelEnum =
    Uninitialized
  | Funded ChannelBalance
  | Active ChannelBalance
  | PendingSettlement ChannelBalance nat

record SignedChannel =
  channel :: ChannelEnum
  signer :: bytes

text \<open>
  The module \<^verbatim>\<open>dbKeys\<close> is not among the sources: its key constructors and parsers
  are parameters of the model.
\<close>

record DbKeys =
  ChannelKey :: "bytes \<Rightarrow> bytes"
  ChannelKeyParse :: "bytes \<Rightarrow> bytes"
  ChallengeKey :: "bytes \<Rightarrow> bytes \<Rightarrow> bytes"
  ChallengeKeyParse :: "bytes \<Rightarrow> bytes \<times> bytes"
  NonceKey :: "bytes \<Rightarrow> bytes \<Rightarrow> bytes"

text \<open>The functions of the module \<^verbatim>\<open>utils\<close> that the sources call, as parameters.\<close>

record Utils =
  isPartyA :: "bytes \<Rightarrow> bytes \<Rightarrow> bool"
  getId :: "bytes \<Rightarrow> bytes \<Rightarrow> bytes promise"
  u8aXOR :: "bytes list \<Rightarrow> bytes"

text \<open>The answers of the ledger client to the queries the sources make.\<close>

record Api =
  query_hopr_channels :: "bytes \<Rightarrow> ChannelEnum option promise"
  query_hopr_pendingWindow :: "nat promise"
  query_system_accountNonce :: "bytes \<Rightarrow> nat promise"

text \<open>
  The class \<^verbatim>\<open>HoprPolkadot\<close>: \<open>self_publicKey\<close> is the public key of the local account
  (\<^verbatim>\<open>self.onChainKeyPair.publicKey\<close>, \<^verbatim>\<open>self.keyPair.publicKey\<close> in the class \<^verbatim>\<open>Channel\<close>),
  \<open>cached_nonce\<close> the private field \<^verbatim>\<open>_nonce\<close> (\<open>None\<close> while it is undefined),
  \<open>newSignedChannel\<close> the decoder \<^verbatim>\<open>new SignedChannel(hoprPolkadot, value)\<close> and
  \<open>Hash_length\<close> the constant \<^verbatim>\<open>Hash.length\<close> of \<^verbatim>\<open>srml_types\<close>. The wrappers
  \<^verbatim>\<open>api.createType('AccountId', _)\<close>, \<^verbatim>\<open>api.createType('Hash', _)\<close> and
  \<^verbatim>\<open>api.createType('Balance', _)\<close> keep the bytes or the number they are given.
\<close>

record HoprPolkadot =
  api :: Api
  self_publicKey :: bytes
  db :: LevelUp
  utils :: Utils
  dbKeys :: DbKeys
  newSignedChannel :: "bytes \<Rightarrow> SignedChannel"
  Hash_length :: nat
  cached_nonce :: "nat option"

section \<open>Channel.isOpen\<close>

text \<open>
  The two handlers of the ledger query: a resolved query says whether the channel is
  there and initialised, a rejected one counts as \<^verbatim>\<open>false\<close>. So of the two promises that
  \<^verbatim>\<open>isOpen\<close> hands to \<^verbatim>\<open>Promise.all\<close> only the second, the store lookup, can reject.
\<close>

definition onChain_of :: "ChannelEnum option promise \<Rightarrow> bool promise" where
  "onChain_of q =
     (case q of
        Resolved ch \<Rightarrow> Resolved (ch \<noteq> None \<and> ch \<noteq> Some Uninitialized)
      | Rejected e \<Rightarrow> Resolved False
      | Pending \<Rightarrow> Pending)"

text \<open>
  The two handlers of the store lookup: a value counts as \<^verbatim>\<open>true\<close>, an error flagged
  \<^verbatim>\<open>notFound\<close> as \<^verbatim>\<open>false\<close>, any other error is thrown again.
\<close>

definition offChain_of :: "bytes promise \<Rightarrow> bool promise" where
  "offChain_of g =
     (case g of
        Resolved v \<Rightarrow> Resolved True
      | Rejected err \<Rightarrow> (if notFound err then Resolved False else Rejected err)
      | Pending \<Rightarrow> Pending)"

definition Channel_isOpen :: "HoprPolkadot \<Rightarrow> bytes \<Rightarrow> bytes \<Rightarrow> bool promise" where
  "Channel_isOpen hoprPolkadot counterparty channelId =
     (case promise_all2
             (onChain_of (query_hopr_channels (api hoprPolkadot) channelId))
             (offChain_of (db_get (db hoprPolkadot) (ChannelKey (dbKeys hoprPolkadot) counterparty))) of
        Rejected e \<Rightarrow> Rejected e
      | Pending \<Rightarrow> Pending
      | Resolved (onChain, offChain) \<Rightarrow>
          (if onChain \<noteq> offChain then
             (if \<not> onChain \<and> offChain then Rejected (ExistsOffChainNotOnChain channelId)
              else Rejected (ExistsOnChainNotOffChain channelId))
           else Resolved (onChain \<and> offChain)))"

section \<open>The class Channel\<close>

text \<open>
  A \<^verbatim>\<open>Channel\<close> object: the counterparty, the private field \<^verbatim>\<open>_signedChannel\<close> and the
  two lazily filled fields \<^verbatim>\<open>_settlementWindow\<close> and \<^verbatim>\<open>_channelId\<close>. A getter that fills
  a field returns the object as it is afterwards.
\<close>

record Channel =
  counterparty :: bytes
  signedChannel :: "SignedChannel option"
  cached_settlementWindow :: "nat option"
  cached_channelId :: "bytes option"

definition Channel_new :: "bytes \<Rightarrow> SignedChannel \<Rightarrow> Channel" where
  "Channel_new cp sc =
     \<lparr>counterparty = cp, signedChannel = Some sc,
      cached_settlementWindow = None, cached_channelId = None\<rparr>"

definition Channel_channelId :: "HoprPolkadot \<Rightarrow> Channel \<Rightarrow> bytes promise \<times> Channel" where
  "Channel_channelId hoprPolkadot c =
     (case cached_channelId c of
        Some i \<Rightarrow> (Resolved i, c)
      | None \<Rightarrow>
          (case getId (utils hoprPolkadot) (self_publicKey hoprPolkadot) (counterparty c) of
             Resolved i \<Rightarrow> (Resolved i, c\<lparr>cached_channelId := Some i\<rparr>)
           | Rejected err \<Rightarrow> (Rejected err, c)
           | Pending \<Rightarrow> (Pending, c)))"

definition Channel_settlementWindow :: "HoprPolkadot \<Rightarrow> Channel \<Rightarrow> nat promise \<times> Channel" where
  "Channel_settlementWindow hoprPolkadot c =
     (case cached_settlementWindow c of
        Some w \<Rightarrow> (Resolved w, c)
      | None \<Rightarrow>
          (case query_hopr_pendingWindow (api hoprPolkadot) of
             Resolved w \<Rightarrow> (Resolved w, c\<lparr>cached_settlementWindow := Some w\<rparr>)
           | Rejected err \<Rightarrow> (Rejected err, c)
           | Pending \<Rightarrow> (Pending, c)))"

text \<open>The private getter \<^verbatim>\<open>channel\<close>, which \<^verbatim>\<open>state\<close> returns as it is.\<close>

definition Channel_channel :: "HoprPolkadot \<Rightarrow> Channel \<Rightarrow> ChannelEnum promise \<times> Channel" where
  "Channel_channel hoprPolkadot c =
     (case signedChannel c of
        Some sc \<Rightarrow> (Resolved (channel sc), c)
      | None \<Rightarrow>
          (case db_get (db hoprPolkadot) (ChannelKey (dbKeys hoprPolkadot) (counterparty c)) of
             Resolved v \<Rightarrow>
               (Resolved (channel (newSignedChannel hoprPolkadot v)),
                c\<lparr>signedChannel := Some (newSignedChannel hoprPolkadot v)\<rparr>)
           | Rejected err \<Rightarrow> (Rejected err, c)
           | Pending \<Rightarrow> (Pending, c)))"

text \<open>The name of a variant, as \<^verbatim>\<open>channel.type\<close> gives it.\<close>

fun type_of :: "ChannelEnum \<Rightarrow> string" where
  "type_of Uninitialized = ''Uninitialized''"
| "type_of (Funded b) = ''Funded''"
| "type_of (Active b) = ''Active''"
| "type_of (PendingSettlement b m) = ''PendingSettlement''"

text \<open>The \<^verbatim>\<open>switch\<close> of the getters \<^verbatim>\<open>balance_a\<close> and \<^verbatim>\<open>balance\<close>.\<close>

fun switch_balance_a :: "ChannelEnum \<Rightarrow> int promise" where
  "switch_balance_a (Funded b) = Resolved (balance_a b)"
| "switch_balance_a (Active b) = Resolved (balance_a b)"
| "switch_balance_a (PendingSettlement b m) = Resolved (balance_a b)"
| "switch_balance_a ch = Rejected (InvalidState (type_of ch))"

fun switch_balance :: "ChannelEnum \<Rightarrow> int promise" where
  "switch_balance (Funded b) = Resolved (balance b)"
| "switch_balance (Active b) = Resolved (balance b)"
| "switch_balance (PendingSettlement b m) = Resolved (balance b)"
| "switch_balance ch = Rejected (InvalidState (type_of ch))"

definition Channel_balance_a :: "HoprPolkadot \<Rightarrow> Channel \<Rightarrow> int promise \<times> Channel" where
  "Channel_balance_a hoprPolkadot c =
     (case Channel_channel hoprPolkadot c of
        (Resolved ch, c') \<Rightarrow> (switch_balance_a ch, c')
      | (Rejected err, c') \<Rightarrow> (Rejected err, c')
      | (Pending, c') \<Rightarrow> (Pending, c'))"

definition Channel_balance :: "HoprPolkadot \<Rightarrow> Channel \<Rightarrow> int promise \<times> Channel" where
  "Channel_balance hoprPolkadot c =
     (case Channel_channel hoprPolkadot c of
        (Resolved ch, c') \<Rightarrow> (switch_balance ch, c')
      | (Rejected err, c') \<Rightarrow> (Rejected err, c')
      | (Pending, c') \<Rightarrow> (Pending, c'))"

text \<open>
  \<^verbatim>\<open>currentBalance\<close>. For party A it is the promise of \<^verbatim>\<open>balance_a\<close>. Otherwise the
  difference is computed inside \<^verbatim>\<open>new Promise(async resolve => ...)\<close>: when one of the
  two awaited getters rejects there, nothing calls \<^verbatim>\<open>resolve\<close> or \<^verbatim>\<open>reject\<close> and the
  promise never settles. \<^verbatim>\<open>sub\<close> is the subtraction of big integers.
\<close>

definition Channel_currentBalance :: "HoprPolkadot \<Rightarrow> Channel \<Rightarrow> int promise \<times> Channel" where
  "Channel_currentBalance hoprPolkadot c =
     (if isPartyA (utils hoprPolkadot) (self_publicKey hoprPolkadot) (counterparty c)
      then Channel_balance_a hoprPolkadot c
      else
        (case Channel_balance hoprPolkadot c of
           (Resolved b, c1) \<Rightarrow>
             (case Channel_balance_a hoprPolkadot c1 of
                (Resolved a, c2) \<Rightarrow> (Resolved (b - a), c2)
              | (Rejected err, c2) \<Rightarrow> (Pending, c2)
              | (Pending, c2) \<Rightarrow> (Pending, c2))
         | (Rejected err, c1) \<Rightarrow> (Pending, c1)
         | (Pending, c1) \<Rightarrow> (Pending, c1)))"

section \<open>Settlement\<close>

text \<open>What happens to a settler, in the order in which it happens.\<close>

datatype settler_event = OnceClosedCalled | InitCalled | OnceClosedResolved | WithdrawCalled

text \<open>
  Modelled from the spec: the class \<^verbatim>\<open>ChannelSettler\<close> of the module \<^verbatim>\<open>./settle\<close> is not
  among the sources. By the spec, \<^verbatim>\<open>init\<close> submits the ledger transaction that enters dispute
  mode, \<^verbatim>\<open>onceClosed\<close> resolves when the window expires or the counterparty finalises the
  closure, and \<^verbatim>\<open>withdraw\<close> may only be invoked after \<^verbatim>\<open>onceClosed\<close> has resolved: earlier it
  is a \<open>NotYetClosed\<close> fault. A settler is
  \<^item> its state: the flag \<open>closed\<close> (the closure has been observed), the flag \<open>withdrawn\<close>
    (the withdrawal has been submitted to the ledger) and its \<open>history\<close>, to which every
    call of a method and the observation of the closure add an event;
  \<^item> what its surroundings will answer: how the wait for the closure ends (\<open>closure\<close>), the
    ledger's answers to the dispute and to the withdrawal transaction, and whether the answer
    to the dispute transaction comes before the promise of the closure and the withdrawal
    settles (\<open>init_first\<close>).
\<close>

record ChannelSettler =
  closed :: bool
  withdrawn :: bool
  history :: "settler_event list"
  closure :: "unit promise"
  init_result :: "unit promise"
  withdraw_result :: "unit promise"
  init_first :: bool

text \<open>\<^verbatim>\<open>onceClosed()\<close>: the call returns the promise, which ends as the wait for the closure ends.\<close>

definition ChannelSettler_onceClosed :: "ChannelSettler \<Rightarrow> unit promise \<times> ChannelSettler" where
  "ChannelSettler_onceClosed s = (closure s, s\<lparr>history := history s @ [OnceClosedCalled]\<rparr>)"

text \<open>The settler at the moment at which the promise of \<^verbatim>\<open>onceClosed()\<close> resolves.\<close>

definition ChannelSettler_observed :: "ChannelSettler \<Rightarrow> ChannelSettler" where
  "ChannelSettler_observed s = s\<lparr>closed := True, history := history s @ [OnceClosedResolved]\<rparr>"

definition ChannelSettler_init :: "ChannelSettler \<Rightarrow> unit promise \<times> ChannelSettler" where
  "ChannelSettler_init s = (init_result s, s\<lparr>history := history s @ [InitCalled]\<rparr>)"

definition ChannelSettler_withdraw :: "ChannelSettler \<Rightarrow> unit promise \<times> ChannelSettler" where
  "ChannelSettler_withdraw s =
     (if closed s
      then (withdraw_result s, s\<lparr>withdrawn := True, history := history s @ [WithdrawCalled]\<rparr>)
      else (Rejected NotYetClosed, s\<lparr>history := history s @ [WithdrawCalled]\<rparr>))"

text \<open>\<^verbatim>\<open>p.then(f)\<close> with a single handler.\<close>

fun andThen :: "'a promise \<Rightarrow> ('a \<Rightarrow> 'b promise) \<Rightarrow> 'b promise" where
  "andThen (Resolved v) f = f v"
| "andThen (Rejected e) f = Rejected e"
| "andThen Pending f = Pending"

text \<open>
  \<^verbatim>\<open>onceClosed.then(handler)\<close> for a handler that works on the settler: the handler runs
  when, and only when, the promise has resolved, on the settler as it is at that moment.
\<close>

definition whenClosed ::
  "unit promise \<Rightarrow> ChannelSettler \<Rightarrow> (ChannelSettler \<Rightarrow> 'a promise \<times> ChannelSettler)
     \<Rightarrow> 'a promise \<times> ChannelSettler" where
  "whenClosed onceClosed s handler =
     (case onceClosed of
        Resolved u \<Rightarrow> handler (ChannelSettler_observed s)
      | Rejected err \<Rightarrow> (Rejected err, s)
      | Pending \<Rightarrow> (Pending, s))"

text \<open>
  \<^verbatim>\<open>initiateSettlement\<close>. The argument \<open>create\<close> is \<^verbatim>\<open>ChannelSettler.create\<close>, given the
  counterparty, the channel id and the settlement window. The array handed to
  \<^verbatim>\<open>Promise.all\<close> is built by calling \<^verbatim>\<open>onceClosed()\<close>, attaching the handler
  \<^verbatim>\<open>() => channelSettler.withdraw()\<close> to its promise, and calling \<^verbatim>\<open>init()\<close>. The result is
  the promise, the settler as the settlement leaves it (\<open>None\<close> when none was created) and
  the channel object with its filled fields.
\<close>

definition Channel_initiateSettlement ::
  "(bytes \<Rightarrow> bytes \<Rightarrow> nat \<Rightarrow> ChannelSettler promise) \<Rightarrow> HoprPolkadot \<Rightarrow> Channel
     \<Rightarrow> unit promise \<times> ChannelSettler option \<times> Channel" where
  "Channel_initiateSettlement create hoprPolkadot c =
     (case Channel_channelId hoprPolkadot c of
        (Resolved channelId, c1) \<Rightarrow>
          (case Channel_settlementWindow hoprPolkadot c1 of
             (Resolved settlementWindow, c2) \<Rightarrow>
               (case create (counterparty c2) channelId settlementWindow of
                  Resolved channelSettler \<Rightarrow>
                    (case ChannelSettler_onceClosed channelSettler of
                       (onceClosed, s1) \<Rightarrow>
                         (case ChannelSettler_init s1 of
                            (init, s2) \<Rightarrow>
                              (case whenClosed onceClosed s2 ChannelSettler_withdraw of
                                 (withdrawal, s3) \<Rightarrow>
                                   ((if init_first s3
                                     then andThen (promise_all2 init withdrawal) (\<lambda>r. Resolved ())
                                     else andThen (promise_all2 withdrawal init) (\<lambda>r. Resolved ())),
                                    Some s3, c2))))
                | Rejected err \<Rightarrow> (Rejected err, None, c2)
                | Pending \<Rightarrow> (Pending, None, c2))
           | (Rejected err, c2) \<Rightarrow> (Rejected err, None, c2)
           | (Pending, c2) \<Rightarrow> (Pending, None, c2))
      | (Rejected err, c1) \<Rightarrow> (Rejected err, None, c1)
      | (Pending, c1) \<Rightarrow> (Pending, None, c1))"

section \<open>Channel.getAll and Channel.closeChannels\<close>

text \<open>
  \<^verbatim>\<open>getAll\<close>: for every row of the scan, \<^verbatim>\<open>onData\<close> is called on a new channel object and
  \<^verbatim>\<open>Promise.resolve\<close> of what it returns is pushed; at the end \<^verbatim>\<open>onEnd\<close> gets the promises,
  and the promise of \<^verbatim>\<open>getAll\<close> is resolved with what \<^verbatim>\<open>onEnd\<close> returns (a promise there is
  followed). A callback is a function to what it returns and what else it does; \<^verbatim>\<open>getAll\<close>
  returns its promise and what the calls of \<^verbatim>\<open>onData\<close> did, row by row.
\<close>

definition Channel_getAll ::
  "HoprPolkadot \<Rightarrow> (Channel \<Rightarrow> 'T \<times> 'E) \<Rightarrow> ('T promise list \<Rightarrow> 'R promise) \<Rightarrow> 'R promise \<times> 'E list" where
  "Channel_getAll hoprPolkadot onData onEnd =
     (case createReadStream (db hoprPolkadot)
             (ChannelKey (dbKeys hoprPolkadot) (replicate (Hash_length hoprPolkadot) 0x00))
             (ChannelKey (dbKeys hoprPolkadot) (replicate (Hash_length hoprPolkadot) 0xff)) of
        Inl err \<Rightarrow> (Rejected err, [])
      | Inr rows \<Rightarrow>
          (onEnd (map (\<lambda>row. Resolved (fst (onData
                    (Channel_new (ChannelKeyParse (dbKeys hoprPolkadot) (fst row))
                                 (newSignedChannel hoprPolkadot (snd row)))))) rows),
           map (\<lambda>row. snd (onData
                    (Channel_new (ChannelKeyParse (dbKeys hoprPolkadot) (fst row))
                                 (newSignedChannel hoprPolkadot (snd row))))) rows))"

text \<open>
  \<^verbatim>\<open>closeChannels\<close>. Its \<^verbatim>\<open>onData\<close> is \<^verbatim>\<open>(channel) => { channel.initiateSettlement() }\<close>: it
  starts the settlement and returns \<^verbatim>\<open>undefined\<close>, so what it does is the settlement of that
  channel, recorded here with the counterparty and the final state of the promise that the
  callback drops. Its \<^verbatim>\<open>onEnd\<close> is \<^verbatim>\<open>Promise.all(promises).then(() => Balance 0)\<close>.
\<close>

definition Channel_closeChannels ::
  "(bytes \<Rightarrow> bytes \<Rightarrow> nat \<Rightarrow> ChannelSettler promise) \<Rightarrow> HoprPolkadot
     \<Rightarrow> int promise \<times> (bytes \<times> unit promise) list" where
  "Channel_closeChannels create hoprPolkadot =
     Channel_getAll hoprPolkadot
       (\<lambda>channel. ((), (counterparty channel,
                          fst (Channel_initiateSettlement create hoprPolkadot channel))))
       (\<lambda>promises. andThen (promise_all promises) (\<lambda>r. Resolved 0))"

section \<open>Channel.getPreviousChallenges\<close>

text \<open>
  The \<^verbatim>\<open>'data'\<close> listener takes the fields \<^verbatim>\<open>key\<close> and \<^verbatim>\<open>ownKeyHalf\<close> of a row. The rows of
  the store are \<^verbatim>\<open>{ key, value }\<close> objects: the field \<^verbatim>\<open>ownKeyHalf\<close> of a row is undefined.
\<close>

definition row_key :: "bytes \<times> bytes \<Rightarrow> bytes" where
  "row_key row = fst row"

definition row_ownKeyHalf :: "bytes \<times> bytes \<Rightarrow> bytes option" where
  "row_ownKeyHalf row = None"

text \<open>
  The listener pushes the XOR of the challenge and the key half. \<open>None\<close> is the
  \<^verbatim>\<open>TypeError\<close> of \<^verbatim>\<open>ownKeyHalf.toU8a()\<close> on an undefined value, thrown inside the listener.
\<close>

definition onChallengeData :: "HoprPolkadot \<Rightarrow> bytes list \<Rightarrow> bytes \<times> bytes \<Rightarrow> bytes list option" where
  "onChallengeData hoprPolkadot pubKeys row =
     (case row_ownKeyHalf row of
        None \<Rightarrow> None
      | Some ownKeyHalf \<Rightarrow>
          Some (pubKeys @
            [u8aXOR (utils hoprPolkadot)
               [snd (ChallengeKeyParse (dbKeys hoprPolkadot) (row_key row)), ownKeyHalf]]))"

fun onChallengeRows :: "HoprPolkadot \<Rightarrow> bytes list \<Rightarrow> (bytes \<times> bytes) list \<Rightarrow> bytes list option" where
  "onChallengeRows hoprPolkadot pubKeys [] = Some pubKeys"
| "onChallengeRows hoprPolkadot pubKeys (row # rows) =
     (case onChallengeData hoprPolkadot pubKeys row of
        None \<Rightarrow> None
      | Some pubKeys' \<Rightarrow> onChallengeRows hoprPolkadot pubKeys' rows)"

text \<open>
  \<^verbatim>\<open>getPreviousChallenges\<close>. Both bounds of the scan are the challenge key of the channel id
  and of \<^verbatim>\<open>Hash.length\<close> bytes \<^verbatim>\<open>0x00\<close>. The body runs inside
  \<^verbatim>\<open>new Promise(async (resolve, reject) => ...)\<close>: a rejected \<^verbatim>\<open>await this.channelId\<close> and an
  exception of the listener reach neither \<^verbatim>\<open>resolve\<close> nor \<^verbatim>\<open>reject\<close>, and the promise never
  settles. The value \<open>None\<close> is the \<^verbatim>\<open>resolve()\<close> without an argument.
\<close>

definition Channel_getPreviousChallenges ::
  "HoprPolkadot \<Rightarrow> Channel \<Rightarrow> bytes option promise \<times> Channel" where
  "Channel_getPreviousChallenges hoprPolkadot c =
     (case Channel_channelId hoprPolkadot c of
        (Resolved channelId, c1) \<Rightarrow>
          (case createReadStream (db hoprPolkadot)
                  (ChallengeKey (dbKeys hoprPolkadot) channelId
                     (replicate (Hash_length hoprPolkadot) 0x00))
                  (ChallengeKey (dbKeys hoprPolkadot) channelId
                     (replicate (Hash_length hoprPolkadot) 0x00)) of
             Inl err \<Rightarrow> (Rejected err, c1)
           | Inr rows \<Rightarrow>
               (case onChallengeRows hoprPolkadot [] rows of
                  None \<Rightarrow> (Pending, c1)
                | Some pubKeys \<Rightarrow>
                    (if length pubKeys > 0
                     then (Resolved (Some (u8aXOR (utils hoprPolkadot) pubKeys)), c1)
                     else (Resolved None, c1))))
      | (Rejected err, c1) \<Rightarrow> (Pending, c1)
      | (Pending, c1) \<Rightarrow> (Pending, c1))"

section \<open>Channel.testAndSetNonce\<close>

text \<open>The bytes of \<^verbatim>\<open>new TextEncoder().encode('Nonce')\<close>.\<close>

definition NONCE_HASH_KEY :: bytes where
  "NONCE_HASH_KEY = [78, 111, 110, 99, 101]"

text \<open>
  \<^verbatim>\<open>testAndSetNonce\<close>, with the hash function \<^verbatim>\<open>blake2b\<close> of the library as a parameter and
  \<^verbatim>\<open>waitReady()\<close> taken to resolve. The store is looked up, and nothing else is done with
  it: the result is the promise, the channel object and the connector as they are after
  the call.
\<close>

definition Channel_testAndSetNonce ::
  "(bytes \<Rightarrow> bytes \<Rightarrow> nat \<Rightarrow> bytes) \<Rightarrow> HoprPolkadot \<Rightarrow> Channel \<Rightarrow> bytes
     \<Rightarrow> unit promise \<times> Channel \<times> HoprPolkadot" where
  "Channel_testAndSetNonce blake2b hoprPolkadot c signature =
     (case Channel_channelId hoprPolkadot c of
        (Resolved channelId, c1) \<Rightarrow>
          (case db_get (db hoprPolkadot)
                  (NonceKey (dbKeys hoprPolkadot) channelId (blake2b signature NONCE_HASH_KEY 32)) of
             Resolved v \<Rightarrow> (Rejected NonceUsedTwice, c1, hoprPolkadot)
           | Rejected err \<Rightarrow>
               (if \<not> notFound err then (Rejected err, c1, hoprPolkadot)
                else (Resolved (), c1, hoprPolkadot))
           | Pending \<Rightarrow> (Pending, c1, hoprPolkadot))
      | (Rejected err, c1) \<Rightarrow> (Rejected err, c1, hoprPolkadot)
      | (Pending, c1) \<Rightarrow> (Pending, c1, hoprPolkadot))"

section \<open>The nonce of the connector\<close>

text \<open>
  The field \<^verbatim>\<open>_nonce\<close> is a \<^verbatim>\<open>number\<close>, a double: \<^verbatim>\<open>toNumber()\<close> gives a value below
  \<open>2 ^ 53\<close> or throws, and \<^verbatim>\<open>_nonce++\<close> adds one exactly below \<open>2 ^ 53\<close> and leaves
  \<open>2 ^ 53\<close> as it is, \<open>2 ^ 53 + 1\<close> being rounded to \<open>2 ^ 53\<close>. The field never holds
  more than that.
\<close>

definition toNumber :: "nat \<Rightarrow> error + nat" where
  "toNumber v = (if v < 2 ^ 53 then Inr v else Inl UnsafeNumber)"

definition increment :: "nat \<Rightarrow> nat" where
  "increment x = (if x < 2 ^ 53 then x + 1 else x)"

text \<open>
  The getter \<^verbatim>\<open>nonce\<close> runs in two steps, and other reads can run between them. Called, it
  tests the field: with a value there it returns that value at once and increments the
  field; without one it sends the query to the ledger and its promise waits (\<open>Awaiting\<close>).
\<close>

datatype nonce_call = Returned nat | Awaiting

definition HoprPolkadot_nonce :: "HoprPolkadot \<Rightarrow> nonce_call \<times> HoprPolkadot" where
  "HoprPolkadot_nonce hoprPolkadot =
     (case cached_nonce hoprPolkadot of
        Some n \<Rightarrow> (Returned n, hoprPolkadot\<lparr>cached_nonce := Some (increment n)\<rparr>)
      | None \<Rightarrow> (Awaiting, hoprPolkadot))"

text \<open>
  When the ledger answers, the waiting read writes the answer into the field, whatever the
  field holds by then, returns it and increments the field.
\<close>

definition HoprPolkadot_nonce_answered :: "HoprPolkadot \<Rightarrow> nat promise \<times> HoprPolkadot" where
  "HoprPolkadot_nonce_answered hoprPolkadot =
     (case query_system_accountNonce (api hoprPolkadot) (self_publicKey hoprPolkadot) of
        Resolved v \<Rightarrow>
          (case toNumber v of
             Inr n \<Rightarrow> (Resolved n, hoprPolkadot\<lparr>cached_nonce := Some (increment n)\<rparr>)
           | Inl err \<Rightarrow> (Rejected err, hoprPolkadot))
      | Rejected err \<Rightarrow> (Rejected err, hoprPolkadot)
      | Pending \<Rightarrow> (Pending, hoprPolkadot))"

text \<open>
  A run of the connector's callers: \<open>Read\<close> is a call of the getter, \<open>Answer\<close> the answer
  of the ledger to the oldest waiting read (nothing, when no read waits). \<open>nonce_run\<close>
  gives what the reads return, in the order in which their promises settle; \<open>waiting\<close>
  counts the reads that wait.
\<close>

datatype nonce_event = Read | Answer

fun nonce_run :: "nonce_event list \<Rightarrow> nat \<Rightarrow> HoprPolkadot \<Rightarrow> nat promise list" where
  "nonce_run [] waiting hoprPolkadot = []"
| "nonce_run (Read # evs) waiting hoprPolkadot =
     (case HoprPolkadot_nonce hoprPolkadot of
        (Returned n, hp') \<Rightarrow> Resolved n # nonce_run evs waiting hp'
      | (Awaiting, hp') \<Rightarrow> nonce_run evs (Suc waiting) hp')"
| "nonce_run (Answer # evs) waiting hoprPolkadot =
     (case waiting of
        0 \<Rightarrow> nonce_run evs 0 hoprPolkadot
      | Suc w \<Rightarrow>
          fst (HoprPolkadot_nonce_answered hoprPolkadot) #
          nonce_run evs w (snd (HoprPolkadot_nonce_answered hoprPolkadot)))"

section \<open>The class SignedTicket\<close>

text \<open>
  A \<^verbatim>\<open>Uint8Array\<close> is a window on a buffer: \<open>byteLength\<close> bytes from \<open>byteOffset\<close> on.
\<close>

record Uint8Array =
  buffer :: bytes
  byteOffset :: nat
  byteLength :: nat

definition contents :: "'a Uint8Array_scheme \<Rightarrow> bytes" where
  "contents a = take (byteLength a) (drop (byteOffset a) (buffer a))"

text \<open>
  \<^verbatim>\<open>new Uint8Array(typedArray)\<close>, and the result of \<^verbatim>\<open>u8aConcat\<close>: an array on a buffer of
  its own. A typed array given as first argument is copied whole, whatever arguments follow.
\<close>

definition Uint8Array_of :: "bytes \<Rightarrow> Uint8Array" where
  "Uint8Array_of bs = \<lparr>buffer = bs, byteOffset = 0, byteLength = length bs\<rparr>"

text \<open>
  \<^verbatim>\<open>new Uint8Array(buffer, byteOffset, length)\<close> on an \<^verbatim>\<open>ArrayBuffer\<close>: a window, which has
  to fit. Without a length (\<^verbatim>\<open>undefined\<close>) the window reaches the end of the buffer.
\<close>

definition Uint8Array_on :: "bytes \<Rightarrow> nat \<Rightarrow> nat option \<Rightarrow> error + Uint8Array" where
  "Uint8Array_on buf off len =
     (case len of
        None \<Rightarrow>
          (if off \<le> length buf
           then Inr \<lparr>buffer = buf, byteOffset = off, byteLength = length buf - off\<rparr>
           else Inl RangeError)
      | Some n \<Rightarrow>
          (if off + n \<le> length buf
           then Inr \<lparr>buffer = buf, byteOffset = off, byteLength = n\<rparr>
           else Inl RangeError))"

text \<open>
  The classes \<^verbatim>\<open>Ticket\<close> and \<^verbatim>\<open>Signature\<close> are not among the sources. The model takes their
  constants \<^verbatim>\<open>Signature.SIZE\<close> and \<^verbatim>\<open>Ticket.SIZE\<close>, the encoder \<^verbatim>\<open>ticket.toU8a()\<close> and the
  decoder \<^verbatim>\<open>new Ticket(registry, bytes)\<close> as parameters, for any type \<open>'t\<close> of tickets.
\<close>

record 't TicketTypes =
  Signature_SIZE :: nat
  Ticket_SIZE :: nat
  toU8a :: "'t \<Rightarrow> bytes"
  newTicket :: "bytes \<Rightarrow> 't"

text \<open>A signed ticket is a \<^verbatim>\<open>Uint8Array\<close> with the private field \<^verbatim>\<open>_ticket\<close>.\<close>

record 't SignedTicket = Uint8Array +
  cached_ticket :: "'t option"

definition SignedTicket_of :: "bytes \<Rightarrow> 't SignedTicket" where
  "SignedTicket_of bs =
     \<lparr>buffer = bs, byteOffset = 0, byteLength = length bs, cached_ticket = None\<rparr>"

definition SignedTicket_SIZE :: "'t TicketTypes \<Rightarrow> nat" where
  "SignedTicket_SIZE T = Signature_SIZE T + Ticket_SIZE T"

text \<open>
  The constructor. \<open>arr\<close> is \<^verbatim>\<open>{ bytes, offset }\<close> with \<^verbatim>\<open>bytes\<close> a \<^verbatim>\<open>Uint8Array\<close>, \<open>struct\<close>
  is \<^verbatim>\<open>{ signature, ticket }\<close> with the bytes of the signature; \<open>None\<close> is \<^verbatim>\<open>null\<close> or
  \<^verbatim>\<open>undefined\<close>.
\<close>

definition SignedTicket_new ::
  "'t TicketTypes \<Rightarrow> (Uint8Array \<times> nat) option \<Rightarrow> (bytes \<times> 't) option \<Rightarrow> error + 't SignedTicket" where
  "SignedTicket_new T arr struct =
     (case (arr, struct) of
        (Some (bs, offset), None) \<Rightarrow> Inr (SignedTicket_of (contents bs))
      | (None, Some (signature, t)) \<Rightarrow>
          (if length (toU8a T t) = Ticket_SIZE T
           then Inr (SignedTicket_of (signature @ toU8a T t))
           else if length (toU8a T t) < Ticket_SIZE T
           then Inr (SignedTicket_of
                  (signature @ toU8a T t @ replicate (Ticket_SIZE T - length (toU8a T t)) 0))
           else Inl (TicketTooBig (length (toU8a T t) - Ticket_SIZE T)))
      | (Some a, Some st) \<Rightarrow> Inl InvalidConstructorArguments
      | (None, None) \<Rightarrow> Inl InvalidConstructorArguments)"

text \<open>
  The overridden \<^verbatim>\<open>subarray(begin, end)\<close>, with \<open>start\<close> for \<^verbatim>\<open>begin\<close> and \<open>stop\<close> for
  \<^verbatim>\<open>end\<close>: a new window on the same buffer. A negative length is a \<^verbatim>\<open>RangeError\<close>.
\<close>

definition subarray :: "'a Uint8Array_scheme \<Rightarrow> nat \<Rightarrow> nat option \<Rightarrow> error + Uint8Array" where
  "subarray a start stop =
     (case stop of
        None \<Rightarrow> Uint8Array_on (buffer a) (byteOffset a + start) None
      | Some e \<Rightarrow>
          (if e < start then Inl RangeError
           else Uint8Array_on (buffer a) (byteOffset a + start) (Some (e - start))))"

text \<open>The getter \<^verbatim>\<open>ticket\<close>: it decodes the ticket once and keeps it.\<close>

definition SignedTicket_ticket ::
  "'t TicketTypes \<Rightarrow> 't SignedTicket \<Rightarrow> (error + 't) \<times> 't SignedTicket" where
  "SignedTicket_ticket T st =
     (case cached_ticket st of
        Some t \<Rightarrow> (Inr t, st)
      | None \<Rightarrow>
          (case subarray st (Signature_SIZE T) (Some (Signature_SIZE T + Ticket_SIZE T)) of
             Inl err \<Rightarrow> (Inl err, st)
           | Inr a \<Rightarrow>
               (Inr (newTicket T (contents a)),
                st\<lparr>cached_ticket := Some (newTicket T (contents a))\<rparr>)))"

section \<open>A small deployment\<close>

text \<open>
  Concrete collaborators on which the functions above can be run: one-byte account
  identifiers, key namespaces told apart by their first byte, a channel id that is the
  two identifiers in order, and an XOR of byte arrays of equal length.
\<close>

definition keys0 :: DbKeys where
  "keys0 =
     \<lparr>ChannelKey = (\<lambda>cp. 1 # cp),
      ChannelKeyParse = tl,
      ChallengeKey = (\<lambda>i h. 2 # i @ h),
      ChallengeKeyParse = (\<lambda>k. (take 2 (tl k), drop 2 (tl k))),
      NonceKey = (\<lambda>i n. 3 # i @ n)\<rparr>"

definition utils0 :: Utils where
  "utils0 =
     \<lparr>isPartyA = (\<lambda>a b. a < b),
      getId = (\<lambda>a b. Resolved (if a < b then a @ b else b @ a)),
      u8aXOR = (\<lambda>arrays. case arrays of [] \<Rightarrow> [] | a # rest \<Rightarrow> foldl (map2 xor) a rest)\<rparr>"

definition balances0 :: ChannelBalance where
  "balances0 = \<lparr>balance = 100, balance_a = 60\<rparr>"

definition signed0 :: SignedChannel where
  "signed0 = \<lparr>channel = Active balances0, signer = [9]\<rparr>"

text \<open>A ledger that knows every channel as active, and one that cannot be reached.\<close>

definition api0 :: Api where
  "api0 =
     \<lparr>query_hopr_channels = (\<lambda>i. Resolved (Some (Active balances0))),
      query_hopr_pendingWindow = Resolved 10,
      query_system_accountNonce = (\<lambda>a. Resolved 5)\<rparr>"

definition api_down :: Api where
  "api_down =
     \<lparr>query_hopr_channels = (\<lambda>i. Rejected (LedgerError ''unreachable'')),
      query_hopr_pendingWindow = Rejected (LedgerError ''unreachable''),
      query_system_accountNonce = (\<lambda>a. Rejected (LedgerError ''unreachable''))\<rparr>"

text \<open>
  The connector of account \<open>[5]\<close>, whose store holds the channels with the counterparties
  \<open>[7]\<close> and \<open>[8]\<close> and one challenge of the channel \<open>[5, 7]\<close>.
\<close>

definition hopr0 :: HoprPolkadot where
  "hopr0 =
     \<lparr>api = api0,
      self_publicKey = [5],
      db = \<lparr>entries = [([1, 7], [0]), ([1, 8], [0]), ([2, 5, 7, 4], [6])], fault = None\<rparr>,
      utils = utils0,
      dbKeys = keys0,
      newSignedChannel = (\<lambda>v. signed0),
      Hash_length = 1,
      cached_nonce = None\<rparr>"

definition channel0 :: Channel where
  "channel0 = Channel_new [7] signed0"

text \<open>
  Settlers: the one of counterparty \<open>[7]\<close> cannot be created, the others are closed by the
  counterparty and paid out.
\<close>

definition settler0 :: ChannelSettler where
  "settler0 =
     \<lparr>closed = False, withdrawn = False, history = [],
      closure = Resolved (), init_result = Resolved (), withdraw_result = Resolved (),
      init_first = True\<rparr>"

definition create0 :: "bytes \<Rightarrow> bytes \<Rightarrow> nat \<Rightarrow> ChannelSettler promise" where
  "create0 cp i w = (if cp = [7] then Rejected (LedgerError ''rejected'') else Resolved settler0)"

text \<open>Settlers whose channel is never closed.\<close>

definition create_waiting :: "bytes \<Rightarrow> bytes \<Rightarrow> nat \<Rightarrow> ChannelSettler promise" where
  "create_waiting cp i w = Resolved (settler0\<lparr>closure := Pending\<rparr>)"

text \<open>
  Tickets that are a number \<open>n\<close>, encoded as \<open>n\<close> bytes \<open>1\<close> and decoded by counting the
  bytes before the first \<open>0\<close>; signatures of two bytes, tickets of four.
\<close>

definition tickets0 :: "nat TicketTypes" where
  "tickets0 =
     \<lparr>Signature_SIZE = 2,
      Ticket_SIZE = 4,
      toU8a = (\<lambda>n. replicate n 1),
      newTicket = (\<lambda>bs. length (takeWhile (\<lambda>b. b \<noteq> 0) bs))\<rparr>"

text \<open>The same connector in front of a ledger that cannot be reached.\<close>

definition hopr_down :: HoprPolkadot where
  "hopr_down = hopr0\<lparr>api := api_down\<rparr>"

text \<open>The same connector on an account whose ledger nonce is \<open>2 ^ 53 - 1\<close>.\<close>

definition hopr_max :: HoprPolkadot where
  "hopr_max =
     hopr0\<lparr>api := api0\<lparr>query_system_accountNonce := (\<lambda>a. Resolved 9007199254740991)\<rparr>\<rparr>"

text \<open>A stand-in for the hash function: the first bytes of the message and the key.\<close>

definition hash0 :: "bytes \<Rightarrow> bytes \<Rightarrow> nat \<Rightarrow> bytes" where
  "hash0 m k n = take n (m @ k)"

section \<open>Lazily filled fields\<close>

text \<open>A getter that has resolved resolves again, with the same value, on the object it left.\<close>

lemma channelId_again:
  assumes "Channel_channelId hp c = (Resolved i, c1)"
  shows "Channel_channelId hp c1 = (Resolved i, c1)"
  using assms
  by (auto simp: Channel_channelId_def split: option.splits promise.splits)

lemma channelId_cases:
  obtains (resolved) i c1 where "Channel_channelId hp c = (Resolved i, c1)"
  | (rejected) e where "Channel_channelId hp c = (Rejected e, c)"
  | (pending) "Channel_channelId hp c = (Pending, c)"
proof (cases "cached_channelId c")
  case None
  then show ?thesis
    by (cases "getId (utils hp) (self_publicKey hp) (counterparty c)")
       (auto simp: Channel_channelId_def intro: that)
next
  case (Some i)
  then show ?thesis by (auto simp: Channel_channelId_def intro: that)
qed

lemma channel_again:
  assumes "Channel_channel hp c = (Resolved st, c1)"
  shows "Channel_channel hp c1 = (Resolved st, c1)"
  using assms
  by (auto simp: Channel_channel_def split: option.splits promise.splits)

section \<open>Properties of Channel.isOpen\<close>

text \<open>
  Claim C2. On a store that works and a ledger that answers, \<open>Channel_isOpen\<close> resolves with
  \<^verbatim>\<open>true\<close> exactly when the ledger holds the channel (a record that is not
  \<open>Uninitialized\<close>) and the store holds a record of the counterparty; it resolves with
  \<^verbatim>\<open>false\<close> exactly when neither does; and when only one side holds the channel it
  rejects, with the error that names the side that holds it, and returns no boolean.
\<close>

theorem isOpen_agreement:
  assumes "fault (db hp) = None"
    and "query_hopr_channels (api hp) cid \<noteq> Pending"
  shows "(Channel_isOpen hp cp cid = Resolved True \<longleftrightarrow>
            (\<exists>ch. query_hopr_channels (api hp) cid = Resolved (Some ch) \<and> ch \<noteq> Uninitialized) \<and>
            (\<exists>v. map_of (entries (db hp)) (ChannelKey (dbKeys hp) cp) = Some v)) \<and>
         (Channel_isOpen hp cp cid = Resolved False \<longleftrightarrow>
            \<not> (\<exists>ch. query_hopr_channels (api hp) cid = Resolved (Some ch) \<and> ch \<noteq> Uninitialized) \<and>
            \<not> (\<exists>v. map_of (entries (db hp)) (ChannelKey (dbKeys hp) cp) = Some v)) \<and>
         (\<not> (\<exists>ch. query_hopr_channels (api hp) cid = Resolved (Some ch) \<and> ch \<noteq> Uninitialized) \<and>
            (\<exists>v. map_of (entries (db hp)) (ChannelKey (dbKeys hp) cp) = Some v) \<longrightarrow>
            Channel_isOpen hp cp cid = Rejected (ExistsOffChainNotOnChain cid)) \<and>
         ((\<exists>ch. query_hopr_channels (api hp) cid = Resolved (Some ch) \<and> ch \<noteq> Uninitialized) \<and>
            \<not> (\<exists>v. map_of (entries (db hp)) (ChannelKey (dbKeys hp) cp) = Some v) \<longrightarrow>
            Channel_isOpen hp cp cid = Rejected (ExistsOnChainNotOffChain cid))"
  using assms
  by (cases "query_hopr_channels (api hp) cid";
      cases "map_of (entries (db hp)) (ChannelKey (dbKeys hp) cp)")
     (auto simp: Channel_isOpen_def onChain_of_def offChain_of_def db_get_def)

theorem isOpen_agreement_witness:
  "fault (db hopr0) = None \<and> query_hopr_channels (api hopr0) [5, 7] \<noteq> Pending \<and>
   Channel_isOpen hopr0 [7] [5, 7] = Resolved True \<and>
   Channel_isOpen hopr0 [4] [4, 5] = Rejected (ExistsOnChainNotOffChain [4, 5])"
proof -
  have f: "fault (db hopr0) = None" by (simp add: hopr0_def)
  have q: "query_hopr_channels (api hopr0) i \<noteq> Pending" for i
    by (simp add: hopr0_def api0_def)
  have l: "\<exists>ch. query_hopr_channels (api hopr0) i = Resolved (Some ch) \<and> ch \<noteq> Uninitialized" for i
    by (simp add: hopr0_def api0_def)
  have s7: "\<exists>v. map_of (entries (db hopr0)) (ChannelKey (dbKeys hopr0) [7]) = Some v"
    by (simp add: hopr0_def keys0_def)
  have s4: "\<not> (\<exists>v. map_of (entries (db hopr0)) (ChannelKey (dbKeys hopr0) [4]) = Some v)"
    by (simp add: hopr0_def keys0_def)
  from isOpen_agreement [OF f q, of "[7]" "[5, 7]"] l s7
  have a: "Channel_isOpen hopr0 [7] [5, 7] = Resolved True" by blast
  from isOpen_agreement [OF f q, of "[4]" "[4, 5]"] l s4
  have b: "Channel_isOpen hopr0 [4] [4, 5] = Rejected (ExistsOnChainNotOffChain [4, 5])" by blast
  from f q a b show ?thesis by simp
qed

text \<open>
  Claim C9. When the ledger query rejects, \<open>Channel_isOpen\<close> takes the channel as absent
  from the ledger: on a store that works, it resolves with \<^verbatim>\<open>false\<close> when the store has no
  record of the counterparty, and it rejects with the error "exists off-chain but not
  on-chain" when the store has one; the error of the ledger is not passed on.
\<close>

theorem isOpen_ledger_rejects:
  assumes "query_hopr_channels (api hp) cid = Rejected e"
    and "fault (db hp) = None"
  shows "onChain_of (query_hopr_channels (api hp) cid) = Resolved False \<and>
         (map_of (entries (db hp)) (ChannelKey (dbKeys hp) cp) = None \<longrightarrow>
            Channel_isOpen hp cp cid = Resolved False) \<and>
         (\<forall>v. map_of (entries (db hp)) (ChannelKey (dbKeys hp) cp) = Some v \<longrightarrow>
            Channel_isOpen hp cp cid = Rejected (ExistsOffChainNotOnChain cid))"
  using assms
  by (simp add: Channel_isOpen_def onChain_of_def offChain_of_def db_get_def)

theorem isOpen_ledger_rejects_witness:
  "query_hopr_channels (api hopr_down) [5, 7] = Rejected (LedgerError ''unreachable'') \<and>
   Channel_isOpen hopr_down [7] [5, 7] = Rejected (ExistsOffChainNotOnChain [5, 7]) \<and>
   Channel_isOpen hopr_down [4] [4, 5] = Resolved False"
proof -
  have f: "fault (db hopr_down) = None" by (simp add: hopr_down_def hopr0_def)
  have q: "query_hopr_channels (api hopr_down) i = Rejected (LedgerError ''unreachable'')" for i
    by (simp add: hopr_down_def api_down_def)
  have s7: "map_of (entries (db hopr_down)) (ChannelKey (dbKeys hopr_down) [7]) = Some [0]"
    by (simp add: hopr_down_def hopr0_def keys0_def)
  have s4: "map_of (entries (db hopr_down)) (ChannelKey (dbKeys hopr_down) [4]) = None"
    by (simp add: hopr_down_def hopr0_def keys0_def)
  from isOpen_ledger_rejects [OF q f, of "[5, 7]" "[7]"] s7
  have a: "Channel_isOpen hopr_down [7] [5, 7] = Rejected (ExistsOffChainNotOnChain [5, 7])"
    by blast
  from isOpen_ledger_rejects [OF q f, of "[4, 5]" "[4]"] s4
  have b: "Channel_isOpen hopr_down [4] [4, 5] = Resolved False" by blast
  from q a b show ?thesis by simp
qed

section \<open>Properties of Channel.currentBalance\<close>

text \<open>
  Claim C7. For a channel whose state carries balances with
  \<open>0 \<le> balance_a \<le> balance\<close>, \<open>Channel_currentBalance\<close> resolves with \<open>balance_a\<close>
  when the local party is party A and with \<open>balance - balance_a\<close> otherwise, and the value
  lies between \<open>0\<close> and \<open>balance\<close>: the subtraction does not go below zero.
\<close>

theorem currentBalance_value:
  assumes "fst (Channel_channel hp c) = Resolved st"
    and "st = Funded b \<or> st = Active b \<or> st = PendingSettlement b m"
    and "0 \<le> balance_a b" and "balance_a b \<le> balance b"
  shows "fst (Channel_currentBalance hp c) =
           Resolved (if isPartyA (utils hp) (self_publicKey hp) (counterparty c)
                     then balance_a b else balance b - balance_a b) \<and>
         (\<exists>v. fst (Channel_currentBalance hp c) = Resolved v \<and> 0 \<le> v \<and> v \<le> balance b)"
proof -
  obtain c1 where ch: "Channel_channel hp c = (Resolved st, c1)"
    using assms(1) by (cases "Channel_channel hp c") simp
  have ch1: "Channel_channel hp c1 = (Resolved st, c1)"
    using channel_again [OF ch] .
  have a: "switch_balance_a st = Resolved (balance_a b)"
    and t: "switch_balance st = Resolved (balance b)"
    using assms(2) by auto
  have "fst (Channel_currentBalance hp c) =
           Resolved (if isPartyA (utils hp) (self_publicKey hp) (counterparty c)
                     then balance_a b else balance b - balance_a b)"
    by (simp add: Channel_currentBalance_def Channel_balance_a_def Channel_balance_def ch ch1 a t)
  with assms(3,4) show ?thesis by simp
qed

theorem currentBalance_value_witness:
  "fst (Channel_channel hopr0 channel0) = Resolved (Active balances0) \<and>
   0 \<le> balance_a balances0 \<and> balance_a balances0 \<le> balance balances0 \<and>
   fst (Channel_currentBalance hopr0 channel0) = Resolved 60 \<and>
   fst (Channel_currentBalance (hopr0\<lparr>self_publicKey := [9]\<rparr>) channel0) = Resolved 40"
proof -
  have s: "fst (Channel_channel hp channel0) = Resolved (Active balances0)" for hp
    by (simp add: Channel_channel_def channel0_def Channel_new_def signed0_def)
  have d: "Active balances0 = Funded balances0 \<or> Active balances0 = Active balances0 \<or>
      Active balances0 = PendingSettlement balances0 0"
    by simp
  have b: "0 \<le> balance_a balances0" "balance_a balances0 \<le> balance balances0"
    by (simp_all add: balances0_def)
  have p: "isPartyA (utils hopr0) (self_publicKey hopr0) (counterparty channel0)"
    by (simp add: hopr0_def utils0_def channel0_def Channel_new_def)
  have n: "\<not> isPartyA (utils (hopr0\<lparr>self_publicKey := [9]\<rparr>))
      (self_publicKey (hopr0\<lparr>self_publicKey := [9]\<rparr>)) (counterparty channel0)"
    by (simp add: hopr0_def utils0_def channel0_def Channel_new_def)
  from currentBalance_value [OF s d b] p
  have x: "fst (Channel_currentBalance hopr0 channel0) = Resolved 60"
    by (simp add: balances0_def)
  from currentBalance_value [OF s d b, of "hopr0\<lparr>self_publicKey := [9]\<rparr>"] n
  have y: "fst (Channel_currentBalance (hopr0\<lparr>self_publicKey := [9]\<rparr>) channel0) = Resolved 40"
    by (simp add: balances0_def)
  from s b x y show ?thesis by simp
qed

section \<open>Properties of Channel.testAndSetNonce\<close>

text \<open>
  Claim C1 asks that of two calls with the same signature on the same channel the first
  succeeds and the second faults. The function does not do that: it looks the nonce up and
  never stores it. Whenever a call resolves, the connector, and with it the store, is what
  it was before the call, and the same call on the channel object and the connector that
  the first call leaves resolves again.
\<close>

theorem testAndSetNonce_twice:
  assumes "Channel_testAndSetNonce blake2b hp c signature = (Resolved (), c1, hp1)"
  shows "hp1 = hp \<and> Channel_testAndSetNonce blake2b hp1 c1 signature = (Resolved (), c1, hp1)"
proof (cases hp c rule: channelId_cases)
  case (resolved i c')
  from assms resolved have c1: "c1 = c'" and hp1: "hp1 = hp"
    by (auto simp: Channel_testAndSetNonce_def split: promise.splits if_splits)
  have again: "Channel_channelId hp c1 = (Resolved i, c1)"
    using channelId_again resolved c1 by simp
  from assms resolved again c1 hp1 show ?thesis
    by (auto simp: Channel_testAndSetNonce_def split: promise.splits if_splits)
next
  case (rejected e)
  with assms show ?thesis by (simp add: Channel_testAndSetNonce_def)
next
  case pending
  with assms show ?thesis by (simp add: Channel_testAndSetNonce_def)
qed

lemma testAndSetNonce_first_call:
  "Channel_testAndSetNonce hash0 hopr0 channel0 [1, 2, 3] =
     (Resolved (), channel0\<lparr>cached_channelId := Some [5, 7]\<rparr>, hopr0)"
  by (simp add: Channel_testAndSetNonce_def Channel_channelId_def channel0_def Channel_new_def
      hopr0_def utils0_def keys0_def db_get_def hash0_def NONCE_HASH_KEY_def)

theorem testAndSetNonce_twice_witness:
  "Channel_testAndSetNonce hash0 hopr0 channel0 [1, 2, 3] =
     (Resolved (), channel0\<lparr>cached_channelId := Some [5, 7]\<rparr>, hopr0) \<and>
   Channel_testAndSetNonce hash0 hopr0 (channel0\<lparr>cached_channelId := Some [5, 7]\<rparr>) [1, 2, 3] =
     (Resolved (), channel0\<lparr>cached_channelId := Some [5, 7]\<rparr>, hopr0)"
  using testAndSetNonce_twice [OF testAndSetNonce_first_call] testAndSetNonce_first_call
  by simp

section \<open>Properties of Channel.getPreviousChallenges\<close>

text \<open>A scan whose two bounds are the same key has no rows.\<close>

lemma createReadStream_same_bounds:
  "createReadStream d k k = (case fault d of Some e \<Rightarrow> Inl e | None \<Rightarrow> Inr [])"
proof -
  have "\<not> (k < x \<and> x < k)" for x :: bytes
    by (auto dest: less_asym)
  then have "filter (\<lambda>row. k < fst row \<and> fst row < k) (entries d) = []"
    by (simp add: filter_empty_conv)
  then show ?thesis
    by (simp add: createReadStream_def split: option.splits)
qed

text \<open>
  Claim C4 asks for the combination of all key halves recorded for the channel. The
  function does not return it: the scan runs between two equal bounds and has no rows, so on
  a store that works, and with a channel id, the function resolves with the empty result
  whatever challenges the store holds.
\<close>

theorem getPreviousChallenges_nothing:
  assumes "fault (db hp) = None"
    and "fst (Channel_channelId hp c) = Resolved i"
  shows "fst (Channel_getPreviousChallenges hp c) = Resolved None"
  using assms
  by (cases "Channel_channelId hp c")
     (simp add: Channel_getPreviousChallenges_def createReadStream_same_bounds)

theorem getPreviousChallenges_nothing_witness:
  "map_of (entries (db hopr0)) (ChallengeKey (dbKeys hopr0) [5, 7] [4]) = Some [6] \<and>
   fst (Channel_channelId hopr0 channel0) = Resolved [5, 7] \<and>
   fst (Channel_getPreviousChallenges hopr0 channel0) = Resolved None"
proof -
  have f: "fault (db hopr0) = None" by (simp add: hopr0_def)
  have i: "fst (Channel_channelId hopr0 channel0) = Resolved [5, 7]"
    by (simp add: Channel_channelId_def channel0_def Channel_new_def hopr0_def utils0_def)
  have "map_of (entries (db hopr0)) (ChallengeKey (dbKeys hopr0) [5, 7] [4]) = Some [6]"
    by (simp add: hopr0_def keys0_def)
  with i getPreviousChallenges_nothing [OF f i] show ?thesis by simp
qed

section \<open>Properties of the nonce\<close>

text \<open>With a cached nonce and no read waiting, every read is answered from the cache.\<close>

lemma nonce_run_cached:
  "cached_nonce hp = Some n \<Longrightarrow> n + count_list evs Read \<le> 2 ^ 53 \<Longrightarrow>
   nonce_run evs 0 hp = map Resolved [n ..< n + count_list evs Read]"
proof (induction evs arbitrary: hp n)
  case Nil
  then show ?case by simp
next
  case (Cons ev evs)
  show ?case
  proof (cases ev)
    case Read
    from Cons.prems(2) Read
    have lt: "n < 2 ^ 53" and rest: "Suc n + count_list evs Read \<le> 2 ^ 53"
      by simp_all
    have step: "HoprPolkadot_nonce hp = (Returned n, hp\<lparr>cached_nonce := Some (Suc n)\<rparr>)"
      using Cons.prems(1) lt by (simp add: HoprPolkadot_nonce_def increment_def)
    have "nonce_run evs 0 (hp\<lparr>cached_nonce := Some (Suc n)\<rparr>) =
        map Resolved [Suc n ..< Suc n + count_list evs Read]"
      using rest by (intro Cons.IH) simp_all
    with step Read show ?thesis by (simp add: upt_conv_Cons)
  next
    case Answer
    with Cons show ?thesis by simp
  qed
qed

text \<open>The cached nonce stays within \<open>2 ^ 53\<close>, through both steps of a read.\<close>

lemma cached_nonce_bounded:
  assumes "\<forall>n. cached_nonce hp = Some n \<longrightarrow> n \<le> 2 ^ 53"
  shows "cached_nonce (snd (HoprPolkadot_nonce hp)) = Some m \<longrightarrow> m \<le> 2 ^ 53"
    and "cached_nonce (snd (HoprPolkadot_nonce_answered hp)) = Some m \<longrightarrow> m \<le> 2 ^ 53"
  using assms
  by (auto simp: HoprPolkadot_nonce_def HoprPolkadot_nonce_answered_def toNumber_def
      increment_def split: option.splits promise.splits sum.splits if_splits)

text \<open>
  Claim C10, amended. When the first read of the getter, on a connector without a cached
  nonce, is answered by the ledger with \<open>v\<close> before any other read is made, then in every
  run that follows, whatever its reads and answers, the reads return \<open>v + 1\<close>, \<open>v + 2\<close>,
  ..., each the value before plus one, as long as the values stay below \<open>2 ^ 53\<close>; so the
  nonces handed out are all different.
\<close>

theorem nonce_run_after_first:
  assumes "cached_nonce hp = None"
    and "query_system_accountNonce (api hp) (self_publicKey hp) = Resolved v"
    and "v + count_list evs Read < 2 ^ 53"
  shows "nonce_run (Read # Answer # evs) 0 hp =
           map Resolved [v ..< v + 1 + count_list evs Read] \<and>
         distinct (nonce_run (Read # Answer # evs) 0 hp)"
proof -
  from assms(3) have v: "v < 2 ^ 53" by simp
  have first: "HoprPolkadot_nonce hp = (Awaiting, hp)"
    using assms(1) by (simp add: HoprPolkadot_nonce_def)
  have answered:
    "HoprPolkadot_nonce_answered hp = (Resolved v, hp\<lparr>cached_nonce := Some (v + 1)\<rparr>)"
    using assms(2) v by (simp add: HoprPolkadot_nonce_answered_def toNumber_def increment_def)
  have "nonce_run evs 0 (hp\<lparr>cached_nonce := Some (v + 1)\<rparr>) =
      map Resolved [v + 1 ..< v + 1 + count_list evs Read]"
    using assms(3) by (intro nonce_run_cached) simp_all
  with first answered
  have reads: "nonce_run (Read # Answer # evs) 0 hp =
      map Resolved [v ..< v + 1 + count_list evs Read]"
    by (simp add: upt_conv_Cons)
  have "distinct (map (Resolved :: nat \<Rightarrow> nat promise) [v ..< v + 1 + count_list evs Read])"
    by (simp only: distinct_map distinct_upt) (simp add: inj_on_def)
  with reads show ?thesis by simp
qed

theorem nonce_run_after_first_witness:
  "cached_nonce hopr0 = None \<and>
   query_system_accountNonce (api hopr0) (self_publicKey hopr0) = Resolved 5 \<and>
   nonce_run [Read, Answer, Read, Answer, Read, Read] 0 hopr0 =
     [Resolved 5, Resolved 6, Resolved 7, Resolved 8]"
proof -
  have c: "cached_nonce hopr0 = None" by (simp add: hopr0_def)
  have q: "query_system_accountNonce (api hopr0) (self_publicKey hopr0) = Resolved 5"
    by (simp add: hopr0_def api0_def)
  have b: "5 + count_list [Read, Answer, Read, Read] Read < (2 :: nat) ^ 53" by simp
  from nonce_run_after_first [OF c q b]
  have "nonce_run [Read, Answer, Read, Answer, Read, Read] 0 hopr0 =
     [Resolved 5, Resolved 6, Resolved 7, Resolved 8]"
    by (simp add: upt_rec)
  with c q show ?thesis by simp
qed

text \<open>
  Claim C10 as it is written fails in two ways. Two reads made before the ledger has
  answered both wait, and each writes the answer into the field: the first is answered
  with \<open>5\<close> and initialises the cache, a third read returns \<open>6\<close>, the second is answered
  with \<open>5\<close> and sets the field back, and a fourth read returns \<open>6\<close> again. And on an
  account whose ledger nonce is \<open>2 ^ 53 - 1\<close>, with the reads one after the other, the
  second and the third read both return \<open>2 ^ 53\<close>.
\<close>

theorem nonce_repeats_counterexample:
  "nonce_run [Read, Read, Answer, Read, Answer, Read] 0 hopr0 =
     [Resolved 5, Resolved 6, Resolved 5, Resolved 6] \<and>
   nonce_run [Read, Answer, Read, Read] 0 hopr_max =
     [Resolved 9007199254740991, Resolved 9007199254740992, Resolved 9007199254740992]"
  by (simp add: HoprPolkadot_nonce_def HoprPolkadot_nonce_answered_def hopr_max_def hopr0_def
      api0_def toNumber_def increment_def)

section \<open>Properties of SignedTicket\<close>

lemma contents_SignedTicket_of: "contents (SignedTicket_of bs) = bs"
  by (simp add: contents_def SignedTicket_of_def)

lemma cached_ticket_SignedTicket_of: "cached_ticket (SignedTicket_of bs) = None"
  by (simp add: SignedTicket_of_def)

text \<open>The window that the getter \<^verbatim>\<open>ticket\<close> opens lies right behind the signature.\<close>

lemma ticket_region:
  assumes "length signature = Signature_SIZE T" and "length body = Ticket_SIZE T"
  shows "subarray (SignedTicket_of (signature @ body) :: 't SignedTicket) (Signature_SIZE T)
            (Some (Signature_SIZE T + Ticket_SIZE T)) =
         Inr \<lparr>buffer = signature @ body, byteOffset = Signature_SIZE T,
              byteLength = Ticket_SIZE T\<rparr>"
  using assms by (simp add: subarray_def Uint8Array_on_def SignedTicket_of_def)

text \<open>
  Claim C5. For a signature of \<^verbatim>\<open>Signature.SIZE\<close> bytes and a ticket whose encoding has at
  most \<^verbatim>\<open>Ticket.SIZE\<close> bytes, the constructor succeeds, the signed ticket holds the
  signature followed by the encoding and its zero padding, and the getter \<^verbatim>\<open>ticket\<close> hands
  exactly the padded encoding to the decoder of tickets: with a decoder that reads the
  ticket back from its padded encoding, the getter returns the original ticket.
\<close>

theorem SignedTicket_roundtrip:
  assumes "length signature = Signature_SIZE T"
    and "length (toU8a T t) \<le> Ticket_SIZE T"
    and "newTicket T (toU8a T t @ replicate (Ticket_SIZE T - length (toU8a T t)) 0) = t"
  shows "\<exists>st. SignedTicket_new T None (Some (signature, t)) = Inr st \<and>
              contents st =
                signature @ toU8a T t @ replicate (Ticket_SIZE T - length (toU8a T t)) 0 \<and>
              fst (SignedTicket_ticket T st) = Inr t"
proof -
  let ?body = "toU8a T t @ replicate (Ticket_SIZE T - length (toU8a T t)) 0"
  let ?st = "SignedTicket_of (signature @ ?body) :: 't SignedTicket"
  have len: "length ?body = Ticket_SIZE T"
    using assms(2) by simp
  have new: "SignedTicket_new T None (Some (signature, t)) = Inr ?st"
    using assms(2) by (auto simp: SignedTicket_new_def)
  have "fst (SignedTicket_ticket T ?st) = Inr (newTicket T ?body)"
    using assms(1) len
    by (simp add: SignedTicket_ticket_def cached_ticket_SignedTicket_of
        ticket_region [OF assms(1) len] contents_def)
  with new assms(3) show ?thesis
    by (simp add: contents_SignedTicket_of)
qed

theorem SignedTicket_roundtrip_witness:
  "length [8, 9 :: byte] = Signature_SIZE tickets0 \<and>
   length (toU8a tickets0 2) \<le> Ticket_SIZE tickets0 \<and>
   SignedTicket_new tickets0 None (Some ([8, 9], 2)) = Inr (SignedTicket_of [8, 9, 1, 1, 0, 0]) \<and>
   fst (SignedTicket_ticket tickets0 (SignedTicket_of [8, 9, 1, 1, 0, 0])) = Inr 2"
proof -
  have a: "length [8, 9 :: byte] = Signature_SIZE tickets0" by (simp add: tickets0_def)
  have b: "length (toU8a tickets0 2) \<le> Ticket_SIZE tickets0" by (simp add: tickets0_def)
  have c: "newTicket tickets0
      (toU8a tickets0 2 @ replicate (Ticket_SIZE tickets0 - length (toU8a tickets0 2)) 0) = 2"
    by (simp add: tickets0_def numeral_2_eq_2)
  have n: "SignedTicket_new tickets0 None (Some ([8, 9], 2)) =
      Inr (SignedTicket_of [8, 9, 1, 1, 0, 0])"
    by (simp add: SignedTicket_new_def tickets0_def numeral_2_eq_2)
  from SignedTicket_roundtrip [OF a b c] n
  have "fst (SignedTicket_ticket tickets0 (SignedTicket_of [8, 9, 1, 1, 0, 0])) = Inr 2"
    by simp
  with a b n show ?thesis by simp
qed

text \<open>
  Claim C6. Constructing a signed ticket from a signature and a ticket whose encoding is
  longer than \<^verbatim>\<open>Ticket.SIZE\<close> fails with the error "Ticket is too big"; otherwise it
  succeeds, the encoding is followed by zero bytes up to \<^verbatim>\<open>Ticket.SIZE\<close>, and the signed
  ticket has the length of the signature plus \<^verbatim>\<open>Ticket.SIZE\<close> bytes, which is
  \<^verbatim>\<open>SignedTicket.SIZE\<close> for a signature of \<^verbatim>\<open>Signature.SIZE\<close> bytes.
\<close>

theorem SignedTicket_new_width:
  "(Ticket_SIZE T < length (toU8a T t) \<longrightarrow>
      SignedTicket_new T None (Some (signature, t)) =
        Inl (TicketTooBig (length (toU8a T t) - Ticket_SIZE T))) \<and>
   (length (toU8a T t) \<le> Ticket_SIZE T \<longrightarrow>
      (\<exists>st. SignedTicket_new T None (Some (signature, t)) = Inr st \<and>
            contents st =
              signature @ toU8a T t @ replicate (Ticket_SIZE T - length (toU8a T t)) 0 \<and>
            byteLength st = length signature + Ticket_SIZE T \<and>
            (length signature = Signature_SIZE T \<longrightarrow> byteLength st = SignedTicket_SIZE T)))"
  by (auto simp: SignedTicket_new_def contents_SignedTicket_of SignedTicket_SIZE_def)
     (simp_all add: SignedTicket_of_def)

theorem SignedTicket_new_width_witness:
  "SignedTicket_new tickets0 None (Some ([8, 9], 5)) = Inl (TicketTooBig 1) \<and>
   SignedTicket_new tickets0 None (Some ([8, 9], 2)) = Inr (SignedTicket_of [8, 9, 1, 1, 0, 0]) \<and>
   byteLength (SignedTicket_of [8, 9, 1, 1, 0, 0] :: nat SignedTicket) = SignedTicket_SIZE tickets0"
proof -
  have five: "Ticket_SIZE tickets0 < length (toU8a tickets0 5)" by (simp add: tickets0_def)
  have two: "length (toU8a tickets0 2) \<le> Ticket_SIZE tickets0" by (simp add: tickets0_def)
  have sg: "length [8, 9 :: byte] = Signature_SIZE tickets0" by (simp add: tickets0_def)
  from SignedTicket_new_width [of tickets0 5 "[8, 9]"] five
  have a: "SignedTicket_new tickets0 None (Some ([8, 9], 5)) = Inl (TicketTooBig 1)"
    by (simp add: tickets0_def)
  from SignedTicket_new_width [of tickets0 2 "[8, 9]"] two sg
  obtain st where st: "SignedTicket_new tickets0 None (Some ([8, 9], 2)) = Inr st"
    and sz: "byteLength st = SignedTicket_SIZE tickets0"
    by blast
  have n: "SignedTicket_new tickets0 None (Some ([8, 9], 2)) =
      Inr (SignedTicket_of [8, 9, 1, 1, 0, 0])"
    by (simp add: SignedTicket_new_def tickets0_def numeral_2_eq_2)
  with st sz
  have "byteLength (SignedTicket_of [8, 9, 1, 1, 0, 0] :: nat SignedTicket) =
      SignedTicket_SIZE tickets0"
    by simp
  with a n show ?thesis by simp
qed

section \<open>Properties of Channel.initiateSettlement\<close>

lemma counterparty_channelId: "counterparty (snd (Channel_channelId hp c)) = counterparty c"
  by (auto simp: Channel_channelId_def split: option.splits promise.splits)

lemma counterparty_settlementWindow:
  "counterparty (snd (Channel_settlementWindow hp c)) = counterparty c"
  by (auto simp: Channel_settlementWindow_def split: option.splits promise.splits)

text \<open>
  With a channel id, a settlement window and a settler, the settlement is the two calls and
  the handler on that settler.
\<close>

lemma initiateSettlement_created:
  assumes "fst (Channel_channelId hp c) = Resolved i"
    and "fst (Channel_settlementWindow hp (snd (Channel_channelId hp c))) = Resolved w"
    and "create (counterparty c) i w = Resolved s"
  shows "fst (Channel_initiateSettlement create hp c) =
           (if init_first s
            then andThen (promise_all2 (init_result s)
                   (fst (whenClosed (closure s)
                      (snd (ChannelSettler_init (snd (ChannelSettler_onceClosed s))))
                      ChannelSettler_withdraw))) (\<lambda>r. Resolved ())
            else andThen (promise_all2
                   (fst (whenClosed (closure s)
                      (snd (ChannelSettler_init (snd (ChannelSettler_onceClosed s))))
                      ChannelSettler_withdraw)) (init_result s)) (\<lambda>r. Resolved ()))"
    and "fst (snd (Channel_initiateSettlement create hp c)) =
           Some (snd (whenClosed (closure s)
                   (snd (ChannelSettler_init (snd (ChannelSettler_onceClosed s))))
                   ChannelSettler_withdraw))"
proof -
  obtain c1 where a: "Channel_channelId hp c = (Resolved i, c1)"
    using assms(1) by (cases "Channel_channelId hp c") simp
  obtain c2 where b: "Channel_settlementWindow hp c1 = (Resolved w, c2)"
    using assms(2) a by (cases "Channel_settlementWindow hp c1") simp
  have cp: "counterparty c2 = counterparty c"
    using counterparty_channelId [of hp c] counterparty_settlementWindow [of hp c1] a b
    by simp
  have f: "init_first (snd (whenClosed (closure s)
                   (snd (ChannelSettler_init (snd (ChannelSettler_onceClosed s))))
                   ChannelSettler_withdraw)) = init_first s"
    by (simp add: whenClosed_def ChannelSettler_init_def ChannelSettler_onceClosed_def
        ChannelSettler_withdraw_def ChannelSettler_observed_def split: promise.splits)
  show "fst (Channel_initiateSettlement create hp c) =
           (if init_first s
            then andThen (promise_all2 (init_result s)
                   (fst (whenClosed (closure s)
                      (snd (ChannelSettler_init (snd (ChannelSettler_onceClosed s))))
                      ChannelSettler_withdraw))) (\<lambda>r. Resolved ())
            else andThen (promise_all2
                   (fst (whenClosed (closure s)
                      (snd (ChannelSettler_init (snd (ChannelSettler_onceClosed s))))
                      ChannelSettler_withdraw)) (init_result s)) (\<lambda>r. Resolved ()))"
    using a b cp assms(3) f
    by (simp add: Channel_initiateSettlement_def split: prod.splits)
       (auto simp: ChannelSettler_onceClosed_def ChannelSettler_init_def)
  show "fst (snd (Channel_initiateSettlement create hp c)) =
           Some (snd (whenClosed (closure s)
                   (snd (ChannelSettler_init (snd (ChannelSettler_onceClosed s))))
                   ChannelSettler_withdraw))"
    using a b cp assms(3)
    by (simp add: Channel_initiateSettlement_def split: prod.splits)
       (auto simp: ChannelSettler_onceClosed_def ChannelSettler_init_def)
qed

text \<open>
  Claim C8. Take a run of \<open>Channel_initiateSettlement\<close> that gets its channel id, its
  settlement window and a settler \<open>s\<close>. The history of the settler grows by the calls of
  \<^verbatim>\<open>onceClosed\<close> and \<^verbatim>\<open>init\<close> and, exactly when the wait for the closure ends well, by the
  observed closure followed by the call of \<^verbatim>\<open>withdraw\<close>: \<^verbatim>\<open>withdraw\<close> is not called before
  the promise of \<^verbatim>\<open>onceClosed\<close> has resolved, and it is called once it has. The withdrawal
  is submitted exactly then; the settlement resolves exactly when the closure has come and
  the ledger has accepted the withdrawal and the dispute transaction; and it faults with
  \<open>NotYetClosed\<close> only if its surroundings answer so. A \<^verbatim>\<open>withdraw\<close> on a settler that is
  not closed is the fault \<open>NotYetClosed\<close> and submits nothing.
\<close>

theorem withdraw_after_closed:
  assumes "fst (Channel_channelId hp c) = Resolved i"
    and "fst (Channel_settlementWindow hp (snd (Channel_channelId hp c))) = Resolved w"
    and "create (counterparty c) i w = Resolved s"
  shows "(\<exists>p s' c'. Channel_initiateSettlement create hp c = (p, Some s', c') \<and>
            history s' = history s @ [OnceClosedCalled, InitCalled] @
              (if closure s = Resolved () then [OnceClosedResolved, WithdrawCalled] else []) \<and>
            (withdrawn s' \<longleftrightarrow> withdrawn s \<or> closure s = Resolved ()) \<and>
            (p = Resolved () \<longleftrightarrow>
               closure s = Resolved () \<and> withdraw_result s = Resolved () \<and>
               init_result s = Resolved ()) \<and>
            (p = Rejected NotYetClosed \<longrightarrow>
               closure s = Rejected NotYetClosed \<or> withdraw_result s = Rejected NotYetClosed \<or>
               init_result s = Rejected NotYetClosed)) \<and>
         (\<not> closed s \<longrightarrow>
            fst (ChannelSettler_withdraw s) = Rejected NotYetClosed \<and>
            withdrawn (snd (ChannelSettler_withdraw s)) = withdrawn s)"
proof -
  let ?run = "whenClosed (closure s)
      (snd (ChannelSettler_init (snd (ChannelSettler_onceClosed s)))) ChannelSettler_withdraw"
  obtain p s' c' where r: "Channel_initiateSettlement create hp c = (p, s', c')"
    by (cases "Channel_initiateSettlement create hp c")
  from initiateSettlement_created [where create = create, OF assms] r
  have p: "p = (if init_first s
            then andThen (promise_all2 (init_result s) (fst ?run)) (\<lambda>r. Resolved ())
            else andThen (promise_all2 (fst ?run) (init_result s)) (\<lambda>r. Resolved ()))"
    and s': "s' = Some (snd ?run)"
    by simp_all
  have h: "history (snd ?run) = history s @ [OnceClosedCalled, InitCalled] @
      (if closure s = Resolved () then [OnceClosedResolved, WithdrawCalled] else [])"
    by (cases "closure s")
       (simp_all add: whenClosed_def ChannelSettler_init_def ChannelSettler_onceClosed_def
          ChannelSettler_withdraw_def ChannelSettler_observed_def)
  have wd: "withdrawn (snd ?run) \<longleftrightarrow> withdrawn s \<or> closure s = Resolved ()"
    by (cases "closure s")
       (simp_all add: whenClosed_def ChannelSettler_init_def ChannelSettler_onceClosed_def
          ChannelSettler_withdraw_def ChannelSettler_observed_def)
  have w: "fst ?run = andThen (closure s) (\<lambda>u. withdraw_result s)"
    by (cases "closure s")
       (simp_all add: whenClosed_def ChannelSettler_init_def ChannelSettler_onceClosed_def
          ChannelSettler_withdraw_def ChannelSettler_observed_def)
  have ok: "p = Resolved () \<longleftrightarrow>
      closure s = Resolved () \<and> withdraw_result s = Resolved () \<and> init_result s = Resolved ()"
    unfolding p w
    by (cases "closure s"; cases "withdraw_result s"; cases "init_result s") simp_all
  have nyc: "closure s = Rejected NotYetClosed \<or> withdraw_result s = Rejected NotYetClosed \<or>
      init_result s = Rejected NotYetClosed" if "p = Rejected NotYetClosed"
    using that unfolding p w
    by (cases "closure s"; cases "withdraw_result s"; cases "init_result s")
       (simp_all split: if_splits)
  have early: "fst (ChannelSettler_withdraw s) = Rejected NotYetClosed \<and>
      withdrawn (snd (ChannelSettler_withdraw s)) = withdrawn s" if "\<not> closed s"
    using that by (simp add: ChannelSettler_withdraw_def)
  from r s' h wd ok nyc early show ?thesis by auto
qed

lemma initiateSettlement_of_8:
  "Channel_initiateSettlement create0 hopr0 (Channel_new [8] signed0) =
     (Resolved (),
      Some (settler0\<lparr>closed := True, withdrawn := True,
        history := [OnceClosedCalled, InitCalled, OnceClosedResolved, WithdrawCalled]\<rparr>),
      (Channel_new [8] signed0)
        \<lparr>cached_settlementWindow := Some 10, cached_channelId := Some [5, 8]\<rparr>)"
  by (simp add: Channel_initiateSettlement_def Channel_channelId_def Channel_settlementWindow_def
      Channel_new_def ChannelSettler_onceClosed_def ChannelSettler_withdraw_def whenClosed_def
      ChannelSettler_observed_def ChannelSettler_init_def hopr0_def utils0_def api0_def
      create0_def settler0_def)

lemma initiateSettlement_waiting:
  "Channel_initiateSettlement create_waiting hopr0 (Channel_new [8] signed0) =
     (Pending,
      Some (settler0\<lparr>closure := Pending, history := [OnceClosedCalled, InitCalled]\<rparr>),
      (Channel_new [8] signed0)
        \<lparr>cached_settlementWindow := Some 10, cached_channelId := Some [5, 8]\<rparr>)"
  by (simp add: Channel_initiateSettlement_def Channel_channelId_def Channel_settlementWindow_def
      Channel_new_def ChannelSettler_onceClosed_def ChannelSettler_withdraw_def whenClosed_def
      ChannelSettler_observed_def ChannelSettler_init_def hopr0_def utils0_def api0_def
      create_waiting_def settler0_def)

theorem withdraw_after_closed_witness:
  "create0 [8] [5, 8] 10 = Resolved settler0 \<and>
   Channel_initiateSettlement create0 hopr0 (Channel_new [8] signed0) =
     (Resolved (),
      Some (settler0\<lparr>closed := True, withdrawn := True,
        history := [OnceClosedCalled, InitCalled, OnceClosedResolved, WithdrawCalled]\<rparr>),
      (Channel_new [8] signed0)
        \<lparr>cached_settlementWindow := Some 10, cached_channelId := Some [5, 8]\<rparr>) \<and>
   Channel_initiateSettlement create_waiting hopr0 (Channel_new [8] signed0) =
     (Pending,
      Some (settler0\<lparr>closure := Pending, history := [OnceClosedCalled, InitCalled]\<rparr>),
      (Channel_new [8] signed0)
        \<lparr>cached_settlementWindow := Some 10, cached_channelId := Some [5, 8]\<rparr>) \<and>
   fst (ChannelSettler_withdraw settler0) = Rejected NotYetClosed \<and>
   \<not> withdrawn (snd (ChannelSettler_withdraw settler0))"
proof -
  let ?c = "Channel_new [8] signed0"
  have i: "fst (Channel_channelId hopr0 ?c) = Resolved [5, 8]"
    by (simp add: Channel_channelId_def Channel_new_def hopr0_def utils0_def)
  have w: "fst (Channel_settlementWindow hopr0 (snd (Channel_channelId hopr0 ?c))) = Resolved 10"
    by (simp add: Channel_settlementWindow_def Channel_channelId_def Channel_new_def hopr0_def
        utils0_def api0_def)
  have s: "create0 (counterparty ?c) [5, 8] 10 = Resolved settler0"
    by (simp add: create0_def Channel_new_def)
  have o: "\<not> closed settler0" "\<not> withdrawn settler0"
    by (simp_all add: settler0_def)
  from withdraw_after_closed [where create = create0, OF i w s] o
  have "fst (ChannelSettler_withdraw settler0) = Rejected NotYetClosed \<and>
      \<not> withdrawn (snd (ChannelSettler_withdraw settler0))"
    by simp
  moreover have "create0 [8] [5, 8] 10 = Resolved settler0"
    by (simp add: create0_def)
  ultimately show ?thesis
    using initiateSettlement_of_8 initiateSettlement_waiting by simp
qed

section \<open>Properties of Channel.closeChannels\<close>

text \<open>\<^verbatim>\<open>Promise.all\<close> of promises that have all resolved resolves with their values.\<close>

lemma promise_all_resolved: "promise_all (map (\<lambda>x. Resolved (f x)) xs) = Resolved (map f xs)"
  by (induction xs) simp_all

text \<open>
  Claim C3 asks that the failures of the settlements are reported, channel by channel. The
  function does not report them: its \<^verbatim>\<open>onData\<close> starts a settlement and returns nothing, so
  the promises that \<^verbatim>\<open>Promise.all\<close> waits for have all resolved already, and on a store that
  works \<open>Channel_closeChannels\<close> resolves with the balance \<open>0\<close> whatever the settlements
  come to.
\<close>

theorem closeChannels_drops_failures:
  assumes "fault (db hp) = None"
  shows "fst (Channel_closeChannels create hp) = Resolved 0"
  using assms
  by (simp add: Channel_closeChannels_def Channel_getAll_def createReadStream_def
      promise_all_resolved)

text \<open>
  In the small deployment the settlement of the channel with \<open>[7]\<close> is rejected and the one
  of the channel with \<open>[8]\<close> goes through.
\<close>

lemma closeChannels_settlements:
  "snd (Channel_closeChannels create0 hopr0) =
     [([7], Rejected (LedgerError ''rejected'')), ([8], Resolved ())]"
  by (simp add: Channel_closeChannels_def Channel_getAll_def createReadStream_def
      Channel_initiateSettlement_def Channel_channelId_def Channel_settlementWindow_def
      Channel_new_def ChannelSettler_onceClosed_def ChannelSettler_withdraw_def whenClosed_def
      ChannelSettler_observed_def ChannelSettler_init_def hopr0_def keys0_def utils0_def
      api0_def create0_def settler0_def)

theorem closeChannels_drops_failures_witness:
  "fault (db hopr0) = None \<and>
   Channel_closeChannels create0 hopr0 =
     (Resolved 0, [([7], Rejected (LedgerError ''rejected'')), ([8], Resolved ())])"
proof -
  have f: "fault (db hopr0) = None" by (simp add: hopr0_def)
  from closeChannels_drops_failures [OF f, of create0] closeChannels_settlements
  have "Channel_closeChannels create0 hopr0 =
     (Resolved 0, [([7], Rejected (LedgerError ''rejected'')), ([8], Resolved ())])"
    by (simp add: prod_eq_iff)
  with f show ?thesis by simp
qed

end
